theory Spec2Isabelle
  imports Main "HOL-Library.Word" "HOL-Library.Signed_Division"
begin

section \<open>Data model of the Pips solver (model.go)\<close>

text \<open>
  Go's \<open>int\<close> is a two's-complement machine integer; it is taken at its 64-bit width.
  Addition and subtraction wrap around, comparisons are signed (\<open><s\<close>), and the
  remainder operator \<open>%\<close> truncates towards zero, so its sign follows the dividend.
\<close>

type_synonym go_int = "64 word"

definition go_rem :: "go_int \<Rightarrow> go_int \<Rightarrow> go_int" where
  "go_rem a b = word_of_int (sint a smod sint b)"

text \<open>
  Go pointers are references into three stores (dominoes, squares, restrictions); a nil
  pointer is \<open>None\<close>. The \<open>Restriction\<close> pointer of a square and the \<open>Domino\<close> and
  \<open>GridSquare\<close> pointers of a move are set to a non-nil value at every place the
  program constructs them (parseRow, parseRestrictedRegion, makeNextMove), so they are
  plain references.
\<close>

type_synonym dref = nat
type_synonym sref = nat
type_synonym rref = nat

type_synonym RestrictionType = string

definition RestrictionTypeNone :: RestrictionType where
  "RestrictionTypeNone = ''none''"
definition RestrictionTypeGreaterThan :: RestrictionType where
  "RestrictionTypeGreaterThan = ''gt''"
definition RestrictionTypeLessThan :: RestrictionType where
  "RestrictionTypeLessThan = ''lt''"
definition RestrictionTypeEqual :: RestrictionType where
  "RestrictionTypeEqual = ''eq''"
definition RestrictionTypeSumsTo :: RestrictionType where
  "RestrictionTypeSumsTo = ''sum''"

record Restriction =
  Type :: RestrictionType
  Arg :: go_int
  NumSquaresLeft :: go_int

record GridSquare =
  X :: go_int
  Y :: go_int
  DominoAssigned :: "dref option"
  PipValue :: go_int
  Restriction :: rref
  TopNeighbor :: "sref option"
  BottomNeighbor :: "sref option"
  LeftNeighbor :: "sref option"
  RightNeighbor :: "sref option"

record Domino =
  Square1Value :: go_int
  Square2Value :: go_int
  IsAssigned :: bool
  rotation :: go_int

subsection \<open>Restriction.Check\<close>

definition Check :: "Restriction \<Rightarrow> go_int \<Rightarrow> go_int \<Rightarrow> bool" where
  "Check r v numSquares =
     (if Type r = RestrictionTypeNone then True
      else if Type r = RestrictionTypeGreaterThan then Arg r <s v
      else if Type r = RestrictionTypeLessThan then v <s Arg r
      else if Type r = RestrictionTypeEqual then Arg r = - 1 \<or> v = Arg r
      else if Type r = RestrictionTypeSumsTo then
        (if Arg r - v <s 0 then False
         else if NumSquaresLeft r = numSquares \<and> v \<noteq> Arg r then False
         else True)
      else False)"

subsection \<open>Domino: rotation and swap\<close>

definition GetRotation :: "Domino \<Rightarrow> go_int" where
  "GetRotation d = go_rem (rotation d) 4"

definition Rotate90DegreesClockwise :: "Domino \<Rightarrow> Domino" where
  "Rotate90DegreesClockwise d = d\<lparr>rotation := rotation d + 1\<rparr>"

definition Rotate90DegreesCounterClockwise :: "Domino \<Rightarrow> Domino" where
  "Rotate90DegreesCounterClockwise d = d\<lparr>rotation := rotation d - 1\<rparr>"

definition Swap :: "Domino \<Rightarrow> Domino" where
  "Swap d = d\<lparr>Square1Value := Square2Value d, Square2Value := Square1Value d\<rparr>"

subsection \<open>The store\<close>

record heap =
  dominoes :: "dref \<Rightarrow> Domino"
  squares :: "sref \<Rightarrow> GridSquare"
  restrictions :: "rref \<Rightarrow> Restriction"

definition upd_domino :: "dref \<Rightarrow> (Domino \<Rightarrow> Domino) \<Rightarrow> heap \<Rightarrow> heap" where
  "upd_domino d f h = h\<lparr>dominoes := (dominoes h)(d := f (dominoes h d))\<rparr>"

definition upd_square :: "sref \<Rightarrow> (GridSquare \<Rightarrow> GridSquare) \<Rightarrow> heap \<Rightarrow> heap" where
  "upd_square s f h = h\<lparr>squares := (squares h)(s := f (squares h s))\<rparr>"

definition upd_restriction :: "rref \<Rightarrow> (Restriction \<Rightarrow> Restriction) \<Rightarrow> heap \<Rightarrow> heap" where
  "upd_restriction r f h = h\<lparr>restrictions := (restrictions h)(r := f (restrictions h r))\<rparr>"

text \<open>The restriction a square points to, read through the store.\<close>

definition restr :: "heap \<Rightarrow> sref \<Rightarrow> Restriction" where
  "restr h s = restrictions h (Restriction (squares h s))"

text \<open>
  The statements of \<open>Domino.Assign\<close> and of its undo closure, each on the store:
  \<open>x.DominoAssigned = v\<close>; the test \<open>x.Restriction.Type == RestrictionTypeEqual\<close>
  with \<open>x.Restriction.Arg == -1\<close> inside it; \<open>x.Restriction.Arg = v\<close>; and the two
  updates guarded by \<open>x.Restriction.Type == RestrictionTypeSumsTo\<close>.
\<close>

definition setDominoAssigned :: "sref \<Rightarrow> dref option \<Rightarrow> heap \<Rightarrow> heap" where
  "setDominoAssigned s x h = upd_square s (\<lambda>q. q\<lparr>DominoAssigned := x\<rparr>) h"

definition isBlankEqual :: "heap \<Rightarrow> sref \<Rightarrow> bool" where
  "isBlankEqual h s = (Type (restr h s) = RestrictionTypeEqual \<and> Arg (restr h s) = - 1)"

definition setArg :: "sref \<Rightarrow> go_int \<Rightarrow> heap \<Rightarrow> heap" where
  "setArg s v h = upd_restriction (Restriction (squares h s)) (\<lambda>r. r\<lparr>Arg := v\<rparr>) h"

definition sumSubtract :: "sref \<Rightarrow> go_int \<Rightarrow> heap \<Rightarrow> heap" where
  "sumSubtract s v h =
     (if Type (restr h s) = RestrictionTypeSumsTo
      then upd_restriction (Restriction (squares h s))
             (\<lambda>r. r\<lparr>Arg := Arg r - v, NumSquaresLeft := NumSquaresLeft r - 1\<rparr>) h
      else h)"

definition sumAddBack :: "sref \<Rightarrow> go_int \<Rightarrow> heap \<Rightarrow> heap" where
  "sumAddBack s v h =
     (if Type (restr h s) = RestrictionTypeSumsTo
      then upd_restriction (Restriction (squares h s))
             (\<lambda>r. r\<lparr>Arg := Arg r + v, NumSquaresLeft := NumSquaresLeft r + 1\<rparr>) h
      else h)"

subsection \<open>Undo closures\<close>

text \<open>
  \<open>Move.UndoFunc\<close> is a \<open>func()\<close>. The program stores three kinds of function in it: the
  method values \<open>m.Domino.Rotate90DegreesCounterClockwise\<close> and \<open>m.Domino.Swap\<close>, whose
  receiver is bound when the method value is taken, and the closure returned by
  \<open>Domino.Assign\<close>, which captures \<open>d\<close>, \<open>s\<close>, \<open>neighbor\<close>, \<open>wasBlank\<close> and
  \<open>neighborWasBlank\<close>. A closure is its code and the variables it captured; running it
  reads the store of the moment it runs.
\<close>

datatype undo =
    UndoRotate dref
  | UndoSwap dref
  | UndoAssign dref sref sref bool bool

fun run_undo :: "undo \<Rightarrow> heap \<Rightarrow> heap" where
  "run_undo (UndoRotate d) h = upd_domino d Rotate90DegreesCounterClockwise h"
| "run_undo (UndoSwap d) h = upd_domino d Swap h"
| "run_undo (UndoAssign d s neighbor wasBlank neighborWasBlank) h0 =
     (let h1 = setDominoAssigned s None h0;
          h2 = upd_domino d (\<lambda>x. x\<lparr>IsAssigned := False\<rparr>) h1;
          h3 = setDominoAssigned neighbor None h2;
          h4 = (if wasBlank then setArg s (- 1) h3 else h3);
          h5 = (if neighborWasBlank then setArg neighbor (- 1) h4 else h4);
          h6 = sumAddBack s (Square1Value (dominoes h5 d)) h5;
          h7 = sumAddBack neighbor (Square2Value (dominoes h6 d)) h6
      in h7)"

subsection \<open>Domino.Assign and Domino.TryAssign\<close>

definition Assign :: "dref \<Rightarrow> sref \<Rightarrow> sref \<Rightarrow> heap \<Rightarrow> heap \<times> undo" where
  "Assign d s neighbor h0 =
     (let h1 = setDominoAssigned s (Some d) h0;
          h2 = setDominoAssigned neighbor (Some d) h1;
          wasBlank = isBlankEqual h2 s;
          h3 = (if wasBlank then setArg s (Square1Value (dominoes h2 d)) h2 else h2);
          neighborWasBlank = isBlankEqual h3 neighbor;
          h4 = (if neighborWasBlank then setArg neighbor (Square2Value (dominoes h3 d)) h3
                else h3);
          h5 = sumSubtract s (Square1Value (dominoes h4 d)) h4;
          h6 = sumSubtract neighbor (Square2Value (dominoes h5 d)) h5;
          h7 = upd_domino d (\<lambda>x. x\<lparr>IsAssigned := True\<rparr>) h6
      in (h7, UndoAssign d s neighbor wasBlank neighborWasBlank))"

text \<open>
  The square the domino's second half would cover: the \<open>switch\<close> on \<open>GetRotation\<close> has
  the cases 0 to 3 and no default, so any other value leaves \<open>neighbor\<close> nil.
\<close>

definition neighborOf :: "Domino \<Rightarrow> GridSquare \<Rightarrow> sref option" where
  "neighborOf d s =
     (if GetRotation d = 0 then RightNeighbor s
      else if GetRotation d = 1 then BottomNeighbor s
      else if GetRotation d = 2 then LeftNeighbor s
      else if GetRotation d = 3 then TopNeighbor s
      else None)"

text \<open>
  \<open>TryAssign\<close> returns \<open>(false, nil)\<close> or \<open>(true, undoFunc)\<close>: \<open>None\<close> or the new store
  with the closure. The first test of the equal branch compares \<open>d.Square1Value\<close> with
  itself, as the source does.
\<close>

definition TryAssign :: "dref \<Rightarrow> sref \<Rightarrow> heap \<Rightarrow> (heap \<times> undo) option" where
  "TryAssign d s h =
     (case neighborOf (dominoes h d) (squares h s) of
        None \<Rightarrow> None
      | Some neighbor \<Rightarrow>
          if DominoAssigned (squares h neighbor) \<noteq> None then None
          else if Restriction (squares h s) = Restriction (squares h neighbor) then
            (if Type (restr h s) = RestrictionTypeEqual
                \<and> (Square1Value (dominoes h d) \<noteq> Square1Value (dominoes h d)
                   \<or> \<not> Check (restr h s) (Square1Value (dominoes h d)) 1)
             then None
             else if Type (restr h s) = RestrictionTypeSumsTo
                \<and> \<not> Check (restr h s)
                       (Square1Value (dominoes h d) + Square2Value (dominoes h d)) 2
             then None
             else Some (Assign d s neighbor h))
          else if \<not> Check (restr h neighbor) (Square2Value (dominoes h d)) 1 then None
          else Some (Assign d s neighbor h))"

subsection \<open>Moves and the move queue\<close>

type_synonym MoveType = string

definition MoveTypeRotate :: MoveType where
  "MoveTypeRotate = ''rotate''"
definition MoveTypeSwap :: MoveType where
  "MoveTypeSwap = ''swap''"
definition MoveTypeAssign :: MoveType where
  "MoveTypeAssign = ''assign''"

text \<open>
  A queue entry is a \<open>*Move\<close>; every move the program pushes is a fresh allocation of
  makeNextMove referenced by the queue alone, so the queue holds the moves themselves.
  \<open>UndoFunc\<close> is nil (\<open>None\<close>) until \<open>TryPush\<close> stores a function in it.
\<close>

record Move =
  Label :: string
  Domino :: dref
  GridSquare :: sref
  MoveType :: MoveType
  UndoFunc :: "undo option"
  Pruned :: bool

type_synonym MoveQueue = "Move list"

datatype error = IndexOutOfRange | NilDereference

definition TryPush :: "Move \<Rightarrow> heap \<times> MoveQueue \<Rightarrow> bool \<times> heap \<times> MoveQueue" where
  "TryPush m st =
     (case st of (h, q) \<Rightarrow>
        if MoveType m = MoveTypeRotate then
          (True, upd_domino (Domino m) Rotate90DegreesClockwise h,
           q @ [m\<lparr>UndoFunc := Some (UndoRotate (Domino m))\<rparr>])
        else if MoveType m = MoveTypeSwap then
          (True, upd_domino (Domino m) Swap h,
           q @ [m\<lparr>UndoFunc := Some (UndoSwap (Domino m))\<rparr>])
        else if MoveType m = MoveTypeAssign then
          (case TryAssign (Domino m) (GridSquare m) h of
             Some (h', u) \<Rightarrow> (True, h', q @ [m\<lparr>UndoFunc := Some u\<rparr>])
           | None \<Rightarrow> (False, h, q))
        else (False, h, q))"

text \<open>
  \<open>Pop\<close> returns nil on an empty queue. Otherwise it takes the last entry off and calls
  its \<open>UndoFunc\<close>; calling a nil function value panics.
\<close>

definition Pop :: "heap \<times> MoveQueue \<Rightarrow> error + (Move option \<times> heap \<times> MoveQueue)" where
  "Pop st =
     (case st of (h, q) \<Rightarrow>
        if length q = 0 then Inr (None, h, q)
        else
          let m = q ! (length q - 1);
              q' = take (length q - 1) q
          in case UndoFunc m of
               None \<Rightarrow> Inl NilDereference
             | Some u \<Rightarrow> Inr (Some m, run_undo u h, q'))"

text \<open>
  \<open>MoveQueue.String\<close>: the header line, then one line per entry that is not pruned.
\<close>

definition MoveQueue_String :: "MoveQueue \<Rightarrow> string" where
  "MoveQueue_String q =
     ''Move queue:'' @ [CHR 0x0A]
       @ concat (map (\<lambda>m. ''  - '' @ Label m @ [CHR 0x0A]) (filter (\<lambda>m. \<not> Pruned m) q))"

subsection \<open>MoveQueue.PruneUselessMoves\<close>

text \<open>
  The inner loop \<open>for j := firstRotateIndex; j <= i; j++\<close> sets \<open>Pruned\<close> on the entries
  \<open>firstRotateIndex..i\<close>.
\<close>

definition markPruned :: "nat \<Rightarrow> nat \<Rightarrow> MoveQueue \<Rightarrow> MoveQueue" where
  "markPruned lo hi q =
     map (\<lambda>(j, m). if lo \<le> j \<and> j \<le> hi then m\<lparr>Pruned := True\<rparr> else m) (enumerate 0 q)"

text \<open>
  The outer loop, from index \<open>i\<close>, with \<open>firstRotateIndex\<close> and the domino of
  \<open>firstRotateMove\<close> (the only field of it that is read). \<open>(*q)[i+1]\<close> is evaluated only
  when \<open>i-firstRotateIndex == 3\<close>, and panics when \<open>i\<close> is the last index.
\<close>

function pruneLoop :: "nat \<Rightarrow> nat \<Rightarrow> dref \<Rightarrow> MoveQueue \<Rightarrow> error + MoveQueue" where
  "pruneLoop i firstRotateIndex firstRotateDomino q =
     (if i < length q then
        (if MoveType (q ! i) = MoveTypeRotate then
           (if firstRotateDomino \<noteq> Domino (q ! i) then
              pruneLoop (i + 1) i (Domino (q ! i)) q
            else if int i - int firstRotateIndex = 3 then
              (if i + 1 < length q then
                 (if \<not> (MoveType (q ! (i + 1)) = MoveTypeAssign
                         \<and> Domino (q ! (i + 1)) = firstRotateDomino)
                  then pruneLoop (i + 1) (i + 1) (Domino (q ! (i + 1)))
                         (markPruned firstRotateIndex i q)
                  else pruneLoop (i + 1) firstRotateIndex firstRotateDomino q)
               else Inl IndexOutOfRange)
            else pruneLoop (i + 1) firstRotateIndex firstRotateDomino q)
         else pruneLoop (i + 1) firstRotateIndex firstRotateDomino q)
      else Inr q)"
  by pat_completeness auto
termination
  by (relation "measure (\<lambda>(i, fri, frd, q). length q - i)") (auto simp add: markPruned_def)

definition PruneUselessMoves :: "MoveQueue \<Rightarrow> error + MoveQueue" where
  "PruneUselessMoves q =
     (if length q = 0 then Inl IndexOutOfRange
      else pruneLoop 1 0 (Domino (q ! 0)) q)"

subsection \<open>DominoSet\<close>

record DominoCandidate =
  Domino :: dref
  isLeftMatch :: bool
  isRightMatch :: bool

type_synonym DominoSet = "dref list"

fun FindAvailableCandidates :: "heap \<Rightarrow> DominoSet \<Rightarrow> sref \<Rightarrow> DominoCandidate list" where
  "FindAvailableCandidates h [] square = []"
| "FindAvailableCandidates h (domino # ds) square =
     (if IsAssigned (dominoes h domino) then FindAvailableCandidates h ds square
      else
        let leftMatch = Check (restr h square) (Square1Value (dominoes h domino)) 1;
            rightMatch = Check (restr h square) (Square2Value (dominoes h domino)) 1
        in if \<not> leftMatch \<and> \<not> rightMatch then FindAvailableCandidates h ds square
           else \<lparr>Domino = domino, isLeftMatch = leftMatch, isRightMatch = rightMatch\<rparr>
                  # FindAvailableCandidates h ds square)"

fun HasUnassigned :: "heap \<Rightarrow> DominoSet \<Rightarrow> bool" where
  "HasUnassigned h [] = False"
| "HasUnassigned h (domino # ds) =
     (if \<not> IsAssigned (dominoes h domino) then True else HasUnassigned h ds)"

section \<open>The search (main.go)\<close>

subsection \<open>pickEmptySquare\<close>

text \<open>
  The grid is \<open>[][]*GridSquare\<close>, nil where the square is blank. The scan is row by row,
  left to right. main.go reads the restriction's counter under the name
  \<open>NumSquaresAffected\<close>; the \<open>Restriction\<close> of model.go has one counter,
  \<open>NumSquaresLeft\<close>, and that is the field read here. The test \<open>Restriction != nil\<close> of
  the scan is always true (see the data model).
\<close>

type_synonym Grid = "sref option list list"

definition blankSquares :: "heap \<Rightarrow> Grid \<Rightarrow> sref list" where
  "blankSquares h grid =
     concat (map (\<lambda>row.
        concat (map (\<lambda>c. case c of
                       None \<Rightarrow> []
                     | Some s \<Rightarrow> (if DominoAssigned (squares h s) = None then [s] else []))
                  row))
       grid)"

definition pickEmptySquare :: "heap \<Rightarrow> Grid \<Rightarrow> error + sref" where
  "pickEmptySquare h grid =
     (let bs = blankSquares h grid in
      case find (\<lambda>s. Type (restr h s) = RestrictionTypeSumsTo
                      \<and> NumSquaresLeft (restr h s) = 1) bs of
        Some s \<Rightarrow> Inr s
      | None \<Rightarrow>
      (case find (\<lambda>s. Type (restr h s) = RestrictionTypeEqual \<and> Arg (restr h s) \<noteq> - 1) bs of
        Some s \<Rightarrow> Inr s
      | None \<Rightarrow>
      (case find (\<lambda>s. Type (restr h s) = RestrictionTypeGreaterThan
                       \<or> Type (restr h s) = RestrictionTypeLessThan) bs of
        Some s \<Rightarrow> Inr s
      | None \<Rightarrow>
      (case bs of [] \<Rightarrow> Inl IndexOutOfRange | s # rest \<Rightarrow> Inr s))))"

subsection \<open>Labels\<close>

text \<open>\<open>fmt.Sprintf\<close> with \<open>%d\<close>: the decimal digits of a signed integer.\<close>

fun digits :: "nat \<Rightarrow> string" where
  "digits n = (if n < 10 then [char_of (48 + n)] else digits (n div 10) @ [char_of (48 + n mod 10)])"

definition fmt_d :: "go_int \<Rightarrow> string" where
  "fmt_d w = (if sint w < 0 then ''-'' @ digits (nat (- sint w)) else digits (nat (sint w)))"

definition swapLabel :: "Domino \<Rightarrow> string" where
  "swapLabel d = ''Swap domino '' @ fmt_d (Square1Value d) @ ''-'' @ fmt_d (Square2Value d)"

definition assignLabel :: "Domino \<Rightarrow> GridSquare \<Rightarrow> string" where
  "assignLabel d s =
     ''Assign domino '' @ fmt_d (Square1Value d) @ ''-'' @ fmt_d (Square2Value d)
       @ '' to square '' @ fmt_d (X s + 1) @ '','' @ fmt_d (Y s + 1)"

definition rotateLabel :: "Domino \<Rightarrow> string" where
  "rotateLabel d = ''Rotate domino '' @ fmt_d (Square1Value d) @ ''-'' @ fmt_d (Square2Value d)"

subsection \<open>makeNextMove\<close>

text \<open>
  The state the search threads through its calls: the store and the move queue. A panic
  ends the program, so a run that panics has no final state.
\<close>

type_synonym state = "heap \<times> MoveQueue"

text \<open>
  Every \<open>defer\<close> of makeNextMove registers the same function, \<open>if !success
  { moveQueue.Pop() }\<close>, over the named result. The deferred calls run when the function
  returns: after \<open>return false\<close> each of them pops one entry, after \<open>return true\<close> none
  does. The loops therefore only count the registered calls.
\<close>

fun runDeferred :: "nat \<Rightarrow> state \<Rightarrow> error + state" where
  "runDeferred 0 st = Inr st"
| "runDeferred (Suc k) st =
     (case Pop st of Inl e \<Rightarrow> Inl e | Inr (m, st') \<Rightarrow> runDeferred k st')"

text \<open>
  The loop \<open>for i := 0; i < numIterations; i++\<close> for one candidate, with \<open>k\<close> iterations
  left. \<open>next\<close> stands for \<open>makeNextMove(grid, dominoes, moveQueue, pickEmptySquare(grid))\<close>;
  its result is \<open>None\<close> when the recursion is cut off. The result of the loop carries
  whether the function returned true from inside it, and the count of deferred calls.
\<close>

fun orientationLoop ::
  "(state \<Rightarrow> (error + bool \<times> state) option) \<Rightarrow> dref \<Rightarrow> sref \<Rightarrow> nat \<Rightarrow> nat \<Rightarrow> state
     \<Rightarrow> (error + bool \<times> nat \<times> state) option" where
  "orientationLoop next d emptySquare 0 deferred st = Some (Inr (False, deferred, st))"
| "orientationLoop next d emptySquare (Suc k) deferred st =
     (let assign = \<lparr>Label = assignLabel (dominoes (fst st) d) (squares (fst st) emptySquare),
                     Domino = d, GridSquare = emptySquare, MoveType = MoveTypeAssign,
                     UndoFunc = None, Pruned = False\<rparr>;
          rotateOn = (\<lambda>st1.
             let rotate = \<lparr>Label = rotateLabel (dominoes (fst st1) d),
                            Domino = d, GridSquare = emptySquare, MoveType = MoveTypeRotate,
                            UndoFunc = None, Pruned = False\<rparr>
             in orientationLoop next d emptySquare k (Suc deferred) (snd (TryPush rotate st1)))
      in case TryPush assign st of
           (True, st1) \<Rightarrow>
             (case next st1 of
                None \<Rightarrow> None
              | Some (Inl e) \<Rightarrow> Some (Inl e)
              | Some (Inr (True, st2)) \<Rightarrow> Some (Inr (True, deferred, st2))
              | Some (Inr (False, st2)) \<Rightarrow>
                  (case Pop st2 of
                     Inl e \<Rightarrow> Some (Inl e)
                   | Inr (m, st3) \<Rightarrow> rotateOn st3))
         | (False, st1) \<Rightarrow> rotateOn st1)"

text \<open>The loop over the candidates.\<close>

fun candidateLoop ::
  "(state \<Rightarrow> (error + bool \<times> state) option) \<Rightarrow> sref \<Rightarrow> DominoCandidate list \<Rightarrow> nat \<Rightarrow> state
     \<Rightarrow> (error + bool \<times> nat \<times> state) option" where
  "candidateLoop next emptySquare [] deferred st = Some (Inr (False, deferred, st))"
| "candidateLoop next emptySquare (candidate # cs) deferred st =
     (let d = DominoCandidate.Domino candidate;
          n0 = (8::nat);
          n1 = (if \<not> isRightMatch candidate then n0 div 2 else n0);
          numIterations = (if \<not> isLeftMatch candidate then n1 div 2 else n1);
          swap = \<lparr>Label = swapLabel (dominoes (fst st) d),
                   Domino = d, GridSquare = emptySquare, MoveType = MoveTypeSwap,
                   UndoFunc = None, Pruned = False\<rparr>;
          st1 = (if \<not> isLeftMatch candidate then snd (TryPush swap st) else st);
          deferred1 = (if \<not> isLeftMatch candidate then Suc deferred else deferred)
      in case orientationLoop next d emptySquare numIterations deferred1 st1 of
           None \<Rightarrow> None
         | Some (Inl e) \<Rightarrow> Some (Inl e)
         | Some (Inr (True, deferred2, st2)) \<Rightarrow> Some (Inr (True, deferred2, st2))
         | Some (Inr (False, deferred2, st2)) \<Rightarrow>
             candidateLoop next emptySquare cs deferred2 st2)"

text \<open>
  makeNextMove, with a bound on the depth of the recursion: \<open>None\<close> when the bound is
  reached. The result is the panic, or the returned \<open>success\<close> with the final state.
\<close>

primrec makeNextMove ::
  "nat \<Rightarrow> Grid \<Rightarrow> DominoSet \<Rightarrow> sref \<Rightarrow> state \<Rightarrow> (error + bool \<times> state) option" where
  "makeNextMove 0 grid ds emptySquare st = None"
| "makeNextMove (Suc fuel) grid ds emptySquare st =
     (let candidates = FindAvailableCandidates (fst st) ds emptySquare in
      if length candidates = 0 then
        (if length ds = 0 then Some (Inr (True, st)) else Some (Inr (False, st)))
      else
        case candidateLoop
               (\<lambda>st1. case pickEmptySquare (fst st1) grid of
                         Inl e \<Rightarrow> Some (Inl e)
                       | Inr square \<Rightarrow> makeNextMove fuel grid ds square st1)
               emptySquare candidates 0 st of
          None \<Rightarrow> None
        | Some (Inl e) \<Rightarrow> Some (Inl e)
        | Some (Inr (True, deferred, st1)) \<Rightarrow> Some (Inr (True, st1))
        | Some (Inr (False, deferred, st1)) \<Rightarrow>
            (case runDeferred deferred st1 of
               Inl e \<Rightarrow> Some (Inl e)
             | Inr st2 \<Rightarrow> Some (Inr (False, st2))))"

text \<open>
  The end of \<open>main\<close>: the first square is picked on the built grid, and the search starts
  on an empty queue.
\<close>

definition solve :: "nat \<Rightarrow> heap \<Rightarrow> Grid \<Rightarrow> DominoSet \<Rightarrow> (error + bool \<times> state) option" where
  "solve fuel h grid ds =
     (case pickEmptySquare h grid of
        Inl e \<Rightarrow> Some (Inl e)
      | Inr square \<Rightarrow> makeNextMove fuel grid ds square (h, []))"

section \<open>Auxiliary definitions for the statements and proofs\<close>

subsection \<open>Example inputs\<close>

text \<open>
  A strip of two squares side by side, square 0 at (0,0) and square 1 at (1,0), both in
  one unbound \<open>eq\<close> region (restriction 0), with the dominoes 3-5 (domino 0, facing
  right) and 1-2 (domino 1, facing down).
\<close>

definition ex_restriction :: Restriction where
  "ex_restriction = \<lparr>Type = RestrictionTypeEqual, Arg = - 1, NumSquaresLeft = 2\<rparr>"

definition ex_square0 :: GridSquare where
  "ex_square0 = \<lparr>X = 0, Y = 0, DominoAssigned = None, PipValue = 0, Restriction = 0,
                  TopNeighbor = None, BottomNeighbor = None, LeftNeighbor = None,
                  RightNeighbor = Some 1\<rparr>"

definition ex_square1 :: GridSquare where
  "ex_square1 = \<lparr>X = 1, Y = 0, DominoAssigned = None, PipValue = 0, Restriction = 0,
                  TopNeighbor = None, BottomNeighbor = None, LeftNeighbor = Some 0,
                  RightNeighbor = None\<rparr>"

definition ex_domino0 :: Domino where
  "ex_domino0 = \<lparr>Square1Value = 3, Square2Value = 5, IsAssigned = False, rotation = 0\<rparr>"

definition ex_domino1 :: Domino where
  "ex_domino1 = \<lparr>Square1Value = 1, Square2Value = 2, IsAssigned = False, rotation = 1\<rparr>"

definition ex_heap :: heap where
  "ex_heap = \<lparr>dominoes = (\<lambda>d. if d = 0 then ex_domino0 else ex_domino1),
              squares = (\<lambda>s. if s = 0 then ex_square0 else ex_square1),
              restrictions = (\<lambda>r. ex_restriction)\<rparr>"

definition ex_move :: "MoveType \<Rightarrow> dref \<Rightarrow> Move" where
  "ex_move t d = \<lparr>Label = [], Domino = d, GridSquare = 0, MoveType = t,
                   UndoFunc = None, Pruned = False\<rparr>"

text \<open>
  The same strip as \<open>parseRow\<close> and \<open>parseDominoes\<close> build it when no region is
  entered: each square has a restriction of its own of type \<open>none\<close> (restrictions 0 and
  1), and the one domino is 1-2 with counter 0.
\<close>

definition none_restriction :: Restriction where
  "none_restriction = \<lparr>Type = RestrictionTypeNone, Arg = 0, NumSquaresLeft = 0\<rparr>"

definition strip_domino :: Domino where
  "strip_domino = \<lparr>Square1Value = 1, Square2Value = 2, IsAssigned = False, rotation = 0\<rparr>"

definition strip_heap :: heap where
  "strip_heap = \<lparr>dominoes = (\<lambda>d. strip_domino),
                 squares = (\<lambda>s. if s = 0 then ex_square0 else ex_square1\<lparr>Restriction := 1\<rparr>),
                 restrictions = (\<lambda>r. none_restriction)\<rparr>"

definition strip_grid :: Grid where
  "strip_grid = [[Some 0, Some 1]]"

text \<open>
  The strip with both squares in one \<open>eq\<close> region as \<open>parseRestrictedRegion\<close> builds
  it: \<open>&Restriction{Type: typ}\<close> leaves \<open>Arg\<close> at 0, and the counter is incremented
  once per square. Domino 0 is 0-5; every other domino is 3-5.
\<close>

definition eq_restriction :: Restriction where
  "eq_restriction = \<lparr>Type = RestrictionTypeEqual, Arg = 0, NumSquaresLeft = 2\<rparr>"

definition eq_domino :: Domino where
  "eq_domino = \<lparr>Square1Value = 0, Square2Value = 5, IsAssigned = False, rotation = 0\<rparr>"

definition eq_heap :: heap where
  "eq_heap = \<lparr>dominoes = (\<lambda>d. if d = 0 then eq_domino else ex_domino0),
              squares = (\<lambda>s. if s = 0 then ex_square0 else ex_square1),
              restrictions = (\<lambda>r. eq_restriction)\<rparr>"

text \<open>
  A move log as the search leaves it when domino 0 matched a square with its second
  half only (a swap is pushed), none of its four orientations could be placed (a rotate
  is pushed after each), and domino 1 was then placed: the entries as \<open>TryPush\<close> stores
  them, each with its undo function.
\<close>

definition logged :: "MoveType \<Rightarrow> dref \<Rightarrow> undo \<Rightarrow> Move" where
  "logged t d u = \<lparr>Label = [], Domino = d, GridSquare = 0, MoveType = t,
                    UndoFunc = Some u, Pruned = False\<rparr>"

definition prune_log :: MoveQueue where
  "prune_log =
     [logged MoveTypeSwap 0 (UndoSwap 0),
      logged MoveTypeRotate 0 (UndoRotate 0),
      logged MoveTypeRotate 0 (UndoRotate 0),
      logged MoveTypeRotate 0 (UndoRotate 0),
      logged MoveTypeRotate 0 (UndoRotate 0),
      logged MoveTypeAssign 1 (UndoAssign 1 0 1 False False)]"



subsection \<open>The priority classes of the square selection\<close>


subsection \<open>One call of makeNextMove\<close>


subsection \<open>The restriction store alone\<close>

text \<open>
  What the statements of \<open>Assign\<close> and of its undo closure do to the restriction store,
  as functions of that store: used to reason about the two without the rest of the heap.
\<close>

type_synonym rstore = "rref \<Rightarrow> Restriction"

definition isBlank :: "rref \<Rightarrow> rstore \<Rightarrow> bool" where
  "isBlank r R = (Type (R r) = RestrictionTypeEqual \<and> Arg (R r) = - 1)"

definition bindEq :: "rref \<Rightarrow> go_int \<Rightarrow> rstore \<Rightarrow> rstore" where
  "bindEq r v R = (if isBlank r R then R(r := (R r)\<lparr>Arg := v\<rparr>) else R)"

definition unbind :: "bool \<Rightarrow> rref \<Rightarrow> rstore \<Rightarrow> rstore" where
  "unbind b r R = (if b then R(r := (R r)\<lparr>Arg := - 1\<rparr>) else R)"

definition subSum :: "rref \<Rightarrow> go_int \<Rightarrow> rstore \<Rightarrow> rstore" where
  "subSum r v R =
     (if Type (R r) = RestrictionTypeSumsTo
      then R(r := (R r)\<lparr>Arg := Arg (R r) - v, NumSquaresLeft := NumSquaresLeft (R r) - 1\<rparr>)
      else R)"

definition addSum :: "rref \<Rightarrow> go_int \<Rightarrow> rstore \<Rightarrow> rstore" where
  "addSum r v R =
     (if Type (R r) = RestrictionTypeSumsTo
      then R(r := (R r)\<lparr>Arg := Arg (R r) + v, NumSquaresLeft := NumSquaresLeft (R r) + 1\<rparr>)
      else R)"

section \<open>Basic facts\<close>

lemma RestrictionType_distinct [simp]:
  "RestrictionTypeNone \<noteq> RestrictionTypeGreaterThan"
  "RestrictionTypeNone \<noteq> RestrictionTypeLessThan"
  "RestrictionTypeNone \<noteq> RestrictionTypeEqual"
  "RestrictionTypeNone \<noteq> RestrictionTypeSumsTo"
  "RestrictionTypeGreaterThan \<noteq> RestrictionTypeNone"
  "RestrictionTypeGreaterThan \<noteq> RestrictionTypeLessThan"
  "RestrictionTypeGreaterThan \<noteq> RestrictionTypeEqual"
  "RestrictionTypeGreaterThan \<noteq> RestrictionTypeSumsTo"
  "RestrictionTypeLessThan \<noteq> RestrictionTypeNone"
  "RestrictionTypeLessThan \<noteq> RestrictionTypeGreaterThan"
  "RestrictionTypeLessThan \<noteq> RestrictionTypeEqual"
  "RestrictionTypeLessThan \<noteq> RestrictionTypeSumsTo"
  "RestrictionTypeEqual \<noteq> RestrictionTypeNone"
  "RestrictionTypeEqual \<noteq> RestrictionTypeGreaterThan"
  "RestrictionTypeEqual \<noteq> RestrictionTypeLessThan"
  "RestrictionTypeEqual \<noteq> RestrictionTypeSumsTo"
  "RestrictionTypeSumsTo \<noteq> RestrictionTypeNone"
  "RestrictionTypeSumsTo \<noteq> RestrictionTypeGreaterThan"
  "RestrictionTypeSumsTo \<noteq> RestrictionTypeLessThan"
  "RestrictionTypeSumsTo \<noteq> RestrictionTypeEqual"
  by (simp_all add: RestrictionTypeNone_def RestrictionTypeGreaterThan_def
      RestrictionTypeLessThan_def RestrictionTypeEqual_def RestrictionTypeSumsTo_def)

lemma MoveType_distinct [simp]:
  "MoveTypeRotate \<noteq> MoveTypeSwap" "MoveTypeRotate \<noteq> MoveTypeAssign"
  "MoveTypeSwap \<noteq> MoveTypeRotate" "MoveTypeSwap \<noteq> MoveTypeAssign"
  "MoveTypeAssign \<noteq> MoveTypeRotate" "MoveTypeAssign \<noteq> MoveTypeSwap"
  by (simp_all add: MoveTypeRotate_def MoveTypeSwap_def MoveTypeAssign_def)

section \<open>Restriction.Check\<close>

lemma Check_None: "Type r = RestrictionTypeNone \<Longrightarrow> Check r v n"
  by (simp add: Check_def)

lemma Check_GreaterThan:
  "Type r = RestrictionTypeGreaterThan \<Longrightarrow> Check r v n = (sint (Arg r) < sint v)"
  by (simp add: Check_def word_sless_alt)

lemma Check_LessThan:
  "Type r = RestrictionTypeLessThan \<Longrightarrow> Check r v n = (sint v < sint (Arg r))"
  by (simp add: Check_def word_sless_alt)

lemma Check_Equal:
  "Type r = RestrictionTypeEqual \<Longrightarrow> Check r v n = (Arg r = - 1 \<or> v = Arg r)"
  by (simp add: Check_def)

lemma Check_SumsTo:
  "Type r = RestrictionTypeSumsTo \<Longrightarrow>
     Check r v n = (\<not> sint (Arg r - v) < 0 \<and> \<not> (NumSquaresLeft r = n \<and> v \<noteq> Arg r))"
  by (simp add: Check_def word_sless_alt)

text \<open>
  C3. \<open>Restriction.Check\<close> on a restriction \<open>r\<close>, a candidate value \<open>v\<close> and a count
  \<open>n\<close> of squares: true for kind none; \<open>v > Arg\<close> for greater-than; \<open>v < Arg\<close> for
  less-than; for equal, true iff the binding is unset (\<open>Arg = -1\<close>) or \<open>v\<close> is the bound
  \<open>Arg\<close>; for sum-to, false if \<open>Arg - v\<close> is negative, false if \<open>NumSquaresLeft = n\<close> and
  \<open>v\<close> differs from \<open>Arg\<close>, true otherwise. Comparisons are signed, and \<open>Arg - v\<close> is
  the machine subtraction.
\<close>

theorem Check_reference_semantics:
  "(Type r = RestrictionTypeNone \<longrightarrow> Check r v n)
   \<and> (Type r = RestrictionTypeGreaterThan \<longrightarrow> Check r v n = (sint (Arg r) < sint v))
   \<and> (Type r = RestrictionTypeLessThan \<longrightarrow> Check r v n = (sint v < sint (Arg r)))
   \<and> (Type r = RestrictionTypeEqual \<longrightarrow> Check r v n = (Arg r = - 1 \<or> v = Arg r))
   \<and> (Type r = RestrictionTypeSumsTo \<longrightarrow>
        Check r v n = (\<not> sint (Arg r - v) < 0 \<and> \<not> (NumSquaresLeft r = n \<and> v \<noteq> Arg r)))"
  by (intro conjI impI Check_None Check_GreaterThan Check_LessThan Check_Equal Check_SumsTo)

theorem Check_reference_semantics_witness:
  "Check \<lparr>Type = RestrictionTypeNone, Arg = 0, NumSquaresLeft = 0\<rparr> 9 1
   \<and> Check \<lparr>Type = RestrictionTypeGreaterThan, Arg = 4, NumSquaresLeft = 1\<rparr> 5 1
   \<and> \<not> Check \<lparr>Type = RestrictionTypeLessThan, Arg = 4, NumSquaresLeft = 1\<rparr> 5 1
   \<and> \<not> Check \<lparr>Type = RestrictionTypeEqual, Arg = 3, NumSquaresLeft = 2\<rparr> 5 1
   \<and> Check \<lparr>Type = RestrictionTypeSumsTo, Arg = 7, NumSquaresLeft = 2\<rparr> 7 2
   \<and> \<not> Check \<lparr>Type = RestrictionTypeSumsTo, Arg = 7, NumSquaresLeft = 2\<rparr> 6 2
   \<and> \<not> Check \<lparr>Type = RestrictionTypeSumsTo, Arg = 7, NumSquaresLeft = 3\<rparr> 8 1"
  using
    Check_reference_semantics [of "\<lparr>Type = RestrictionTypeNone, Arg = 0, NumSquaresLeft = 0\<rparr>" 9 1]
    Check_reference_semantics [of "\<lparr>Type = RestrictionTypeGreaterThan, Arg = 4, NumSquaresLeft = 1\<rparr>" 5 1]
    Check_reference_semantics [of "\<lparr>Type = RestrictionTypeLessThan, Arg = 4, NumSquaresLeft = 1\<rparr>" 5 1]
    Check_reference_semantics [of "\<lparr>Type = RestrictionTypeEqual, Arg = 3, NumSquaresLeft = 2\<rparr>" 5 1]
    Check_reference_semantics [of "\<lparr>Type = RestrictionTypeSumsTo, Arg = 7, NumSquaresLeft = 2\<rparr>" 7 2]
    Check_reference_semantics [of "\<lparr>Type = RestrictionTypeSumsTo, Arg = 7, NumSquaresLeft = 2\<rparr>" 6 2]
    Check_reference_semantics [of "\<lparr>Type = RestrictionTypeSumsTo, Arg = 7, NumSquaresLeft = 3\<rparr>" 8 1]
  by simp

section \<open>Rotation\<close>

lemma rotate_inverse:
  "Rotate90DegreesCounterClockwise (Rotate90DegreesClockwise d) = d"
  "Rotate90DegreesClockwise (Rotate90DegreesCounterClockwise d) = d"
  by (simp_all add: Rotate90DegreesClockwise_def Rotate90DegreesCounterClockwise_def)

lemma Swap_Swap: "Swap (Swap d) = d"
  by (simp add: Swap_def)

lemma go_rem_4_nonneg:
  assumes "0 \<le> sint (w::go_int)"
  shows "go_rem w 4 \<in> {0, 1, 2, 3}"
proof -
  have "sint w smod 4 = sint w mod 4"
    using assms by (simp add: signed_modulo_int_def sgn_if)
  moreover have "sint w mod 4 \<in> {0, 1, 2, 3}"
    by auto
  ultimately show ?thesis
    by (auto simp add: go_rem_def)
qed

lemma GetRotation_0 [simp]: "rotation d = 0 \<Longrightarrow> GetRotation d = 0"
  by (simp add: GetRotation_def go_rem_def signed_modulo_int_def)

lemma GetRotation_1 [simp]: "rotation d = 1 \<Longrightarrow> GetRotation d = 1"
  by (simp add: GetRotation_def go_rem_def signed_modulo_int_def)

text \<open>
  C7. For a domino whose rotation counter is not negative, \<open>GetRotation\<close> returns a
  value in \<open>0..3\<close>. The counter is not negative in the search: a domino is created with
  counter 0, \<open>TryPush\<close> of a rotate move increments it, and
  \<open>Rotate90DegreesCounterClockwise\<close> is only ever stored as the undo function of such a
  move, which \<open>Pop\<close> calls once. The two rotations are inverse to each other on the
  domino, hence on the facing \<open>GetRotation\<close> reads.
\<close>

theorem GetRotation_range_and_inverse:
  "(0 \<le> sint (rotation d) \<longrightarrow> GetRotation d \<in> {0, 1, 2, 3})
   \<and> Rotate90DegreesCounterClockwise (Rotate90DegreesClockwise d) = d
   \<and> Rotate90DegreesClockwise (Rotate90DegreesCounterClockwise d) = d
   \<and> GetRotation (Rotate90DegreesCounterClockwise (Rotate90DegreesClockwise d)) = GetRotation d
   \<and> GetRotation (Rotate90DegreesClockwise (Rotate90DegreesCounterClockwise d)) = GetRotation d"
  using go_rem_4_nonneg [of "rotation d"] by (simp add: GetRotation_def rotate_inverse)

theorem GetRotation_range_and_inverse_witness:
  "0 \<le> sint (rotation (Rotate90DegreesClockwise ex_domino1))
   \<and> GetRotation (Rotate90DegreesClockwise ex_domino1) \<in> {0, 1, 2, 3}
   \<and> Rotate90DegreesCounterClockwise (Rotate90DegreesClockwise ex_domino1) = ex_domino1"
  using GetRotation_range_and_inverse [of "Rotate90DegreesClockwise ex_domino1"]
    GetRotation_range_and_inverse [of ex_domino1]
  by (simp add: ex_domino1_def Rotate90DegreesClockwise_def)

text \<open>
  Without the bound on the counter the range fails: one call of
  \<open>Rotate90DegreesCounterClockwise\<close> on a domino with counter 0 leaves the counter at
  \<open>-1\<close>, and \<open>GetRotation\<close> returns \<open>-1 % 4 = -1\<close>.
\<close>

theorem GetRotation_after_counterclockwise:
  "GetRotation (Rotate90DegreesCounterClockwise
      \<lparr>Square1Value = 1, Square2Value = 2, IsAssigned = False, rotation = 0\<rparr>) = - 1"
  by (simp add: GetRotation_def Rotate90DegreesCounterClockwise_def go_rem_def
      signed_modulo_int_def)

section \<open>The store, Assign and its undo closure\<close>

lemma heap_eqI:
  "dominoes a = dominoes b \<Longrightarrow> squares a = squares b \<Longrightarrow> restrictions a = restrictions b
     \<Longrightarrow> (a::heap) = b"
  by simp

lemma upd_proj [simp]:
  "dominoes (upd_square s f h) = dominoes h"
  "dominoes (upd_restriction r g h) = dominoes h"
  "dominoes (upd_domino d k h) = (dominoes h)(d := k (dominoes h d))"
  "squares (upd_square s f h) = (squares h)(s := f (squares h s))"
  "squares (upd_restriction r g h) = squares h"
  "squares (upd_domino d k h) = squares h"
  "restrictions (upd_square s f h) = restrictions h"
  "restrictions (upd_restriction r g h) = (restrictions h)(r := g (restrictions h r))"
  "restrictions (upd_domino d k h) = restrictions h"
  by (simp_all add: upd_square_def upd_domino_def upd_restriction_def)

lemma setDominoAssigned_proj [simp]:
  "dominoes (setDominoAssigned s x h) = dominoes h"
  "squares (setDominoAssigned s x h) = (squares h)(s := (squares h s)\<lparr>DominoAssigned := x\<rparr>)"
  "restrictions (setDominoAssigned s x h) = restrictions h"
  by (simp_all add: setDominoAssigned_def)

lemma setArg_proj [simp]:
  "dominoes (setArg s v h) = dominoes h"
  "squares (setArg s v h) = squares h"
  "restrictions (setArg s v h) =
     (restrictions h)(Restriction (squares h s) := (restr h s)\<lparr>Arg := v\<rparr>)"
  by (simp_all add: setArg_def restr_def)

lemma sumSubtract_proj [simp]:
  "dominoes (sumSubtract s v h) = dominoes h"
  "squares (sumSubtract s v h) = squares h"
  "restrictions (sumSubtract s v h) = subSum (Restriction (squares h s)) v (restrictions h)"
  by (simp_all add: sumSubtract_def subSum_def restr_def)

lemma sumAddBack_proj [simp]:
  "dominoes (sumAddBack s v h) = dominoes h"
  "squares (sumAddBack s v h) = squares h"
  "restrictions (sumAddBack s v h) = addSum (Restriction (squares h s)) v (restrictions h)"
  by (simp_all add: sumAddBack_def addSum_def restr_def)

lemma if_proj:
  "dominoes (if b then h1 else h2) = (if b then dominoes h1 else dominoes h2)"
  "squares (if b then h1 else h2) = (if b then squares h1 else squares h2)"
  "restrictions (if b then h1 else h2) = (if b then restrictions h1 else restrictions h2)"
  by simp_all

lemma Restriction_setDA [simp]:
  "Restriction (((squares h)(s := (squares h s)\<lparr>DominoAssigned := x\<rparr>)) t) = Restriction (squares h t)"
  by simp

lemma Restriction_setDA2 [simp]:
  "Restriction (((squares h)(s := (squares h s)\<lparr>DominoAssigned := x\<rparr>,
        n := (((squares h)(s := (squares h s)\<lparr>DominoAssigned := x\<rparr>)) n)\<lparr>DominoAssigned := y\<rparr>)) t)
   = Restriction (squares h t)"
  by simp

lemma Assign_dominoes:
  "dominoes (fst (Assign d s n h)) = (dominoes h)(d := (dominoes h d)\<lparr>IsAssigned := True\<rparr>)"
  by (simp add: Assign_def Let_def if_proj)

lemma Assign_squares:
  "squares (fst (Assign d s n h)) =
     (squares h)(s := (squares h s)\<lparr>DominoAssigned := Some d\<rparr>,
                 n := (((squares h)(s := (squares h s)\<lparr>DominoAssigned := Some d\<rparr>)) n)\<lparr>DominoAssigned := Some d\<rparr>)"
  by (simp add: Assign_def Let_def if_proj)

lemma undo_dominoes:
  "dominoes (run_undo (UndoAssign d s n wb nwb) h) = (dominoes h)(d := (dominoes h d)\<lparr>IsAssigned := False\<rparr>)"
  by (simp add: Let_def if_proj)

lemma undo_squares:
  "squares (run_undo (UndoAssign d s n wb nwb) h) =
     (squares h)(s := (squares h s)\<lparr>DominoAssigned := None\<rparr>,
                 n := (((squares h)(s := (squares h s)\<lparr>DominoAssigned := None\<rparr>)) n)\<lparr>DominoAssigned := None\<rparr>)"
  by (simp add: Let_def if_proj)

lemma isBlankEqual_store:
  "isBlankEqual h s = isBlank (Restriction (squares h s)) (restrictions h)"
  by (simp add: isBlankEqual_def isBlank_def restr_def)

lemma bind_step [simp]:
  "dominoes (if isBlankEqual h s then setArg s v h else h) = dominoes h"
  "squares (if isBlankEqual h s then setArg s v h else h) = squares h"
  "restrictions (if isBlankEqual h s then setArg s v h else h)
     = bindEq (Restriction (squares h s)) v (restrictions h)"
  by (simp_all add: isBlankEqual_store bindEq_def restr_def)

lemma bind_step_store:
  "dominoes (if isBlank (Restriction (squares h s)) (restrictions h) then setArg s v h else h)
     = dominoes h"
  "squares (if isBlank (Restriction (squares h s)) (restrictions h) then setArg s v h else h)
     = squares h"
  "restrictions (if isBlank (Restriction (squares h s)) (restrictions h) then setArg s v h else h)
     = bindEq (Restriction (squares h s)) v (restrictions h)"
  by (simp_all add: bindEq_def restr_def)

lemma unbind_step [simp]:
  "dominoes (if b then setArg s v h else h) = dominoes h"
  "squares (if b then setArg s v h else h) = squares h"
  "restrictions (if b then setArg s (- 1) h else h)
     = unbind b (Restriction (squares h s)) (restrictions h)"
  by (simp_all add: unbind_def restr_def)

lemma Assign_restrictions:
  "restrictions (fst (Assign d s n h)) =
     subSum (Restriction (squares h n)) (Square2Value (dominoes h d))
       (subSum (Restriction (squares h s)) (Square1Value (dominoes h d))
         (bindEq (Restriction (squares h n)) (Square2Value (dominoes h d))
           (bindEq (Restriction (squares h s)) (Square1Value (dominoes h d)) (restrictions h))))"
  by (simp add: Assign_def Let_def)

lemma Assign_snd:
  "snd (Assign d s n h) =
     UndoAssign d s n (isBlank (Restriction (squares h s)) (restrictions h))
       (isBlank (Restriction (squares h n))
          (bindEq (Restriction (squares h s)) (Square1Value (dominoes h d)) (restrictions h)))"
  by (simp add: Assign_def Let_def isBlankEqual_store bind_step_store)

lemma undo_restrictions:
  "restrictions (run_undo (UndoAssign d s n wb nwb) h) =
     addSum (Restriction (squares h n)) (Square2Value (dominoes h d))
       (addSum (Restriction (squares h s)) (Square1Value (dominoes h d))
         (unbind nwb (Restriction (squares h n))
           (unbind wb (Restriction (squares h s)) (restrictions h))))"
  by (simp add: Let_def)

lemma restr_roundtrip:
  "addSum rn v2 (addSum rs v1 (unbind (isBlank rn (bindEq rs v1 R)) rn (unbind (isBlank rs R) rs
     (subSum rn v2 (subSum rs v1 (bindEq rn v2 (bindEq rs v1 R))))))) = R"
  apply (cases "rs = rn"; cases "Type (R rs) = RestrictionTypeEqual";
         cases "Type (R rs) = RestrictionTypeSumsTo";
         cases "Type (R rn) = RestrictionTypeEqual"; cases "Type (R rn) = RestrictionTypeSumsTo";
         cases "Arg (R rs) = - 1"; cases "Arg (R rn) = - 1"; cases "v1 = - 1")
  apply (simp_all add: fun_eq_iff addSum_def unbind_def isBlank_def subSum_def bindEq_def)
  done

lemma Assign_undo:
  assumes "DominoAssigned (squares h s) = None" and "DominoAssigned (squares h n) = None"
    and "\<not> IsAssigned (dominoes h d)"
  shows "run_undo (snd (Assign d s n h)) (fst (Assign d s n h)) = h"
proof (rule heap_eqI)
  show "dominoes (run_undo (snd (Assign d s n h)) (fst (Assign d s n h))) = dominoes h"
    using assms(3)
    by (simp add: Assign_snd undo_dominoes Assign_dominoes fun_eq_iff del: run_undo.simps)
  show "squares (run_undo (snd (Assign d s n h)) (fst (Assign d s n h))) = squares h"
    using assms(1,2)
    by (simp add: Assign_snd undo_squares Assign_squares fun_eq_iff del: run_undo.simps)
  show "restrictions (run_undo (snd (Assign d s n h)) (fst (Assign d s n h))) = restrictions h"
    by (simp add: Assign_snd undo_restrictions Assign_squares Assign_dominoes
        Assign_restrictions restr_roundtrip del: run_undo.simps)
qed

lemma upd_domino_roundtrip:
  "(\<And>x. g (f x) = x) \<Longrightarrow> upd_domino d g (upd_domino d f h) = h"
  by (rule heap_eqI) (simp_all add: fun_eq_iff)

lemma TryAssign_Some:
  "TryAssign d s h = Some r \<Longrightarrow>
     \<exists>n. neighborOf (dominoes h d) (squares h s) = Some n
        \<and> DominoAssigned (squares h n) = None \<and> r = Assign d s n h"
  by (auto simp add: TryAssign_def split: option.splits if_splits)

lemma TryAssign_None_iff:
  "TryAssign d s h = None \<longleftrightarrow>
     (case neighborOf (dominoes h d) (squares h s) of
        None \<Rightarrow> True
      | Some n \<Rightarrow>
          DominoAssigned (squares h n) \<noteq> None
          \<or> (if Restriction (squares h s) = Restriction (squares h n)
              then (Type (restr h s) = RestrictionTypeEqual
                      \<and> \<not> Check (restr h s) (Square1Value (dominoes h d)) 1)
                 \<or> (Type (restr h s) = RestrictionTypeSumsTo
                      \<and> \<not> Check (restr h s)
                             (Square1Value (dominoes h d) + Square2Value (dominoes h d)) 2)
              else \<not> Check (restr h n) (Square2Value (dominoes h d)) 1))"
  by (auto simp add: TryAssign_def split: option.splits)

section \<open>The move queue\<close>

text \<open>
  C10. \<open>Pop\<close> on an empty queue returns nil and leaves the store and the queue as they
  are. On a queue whose last entry \<open>m\<close> holds an undo function \<open>u\<close>, it returns \<open>m\<close>,
  leaves the entries before it, and the store is the one \<open>u\<close> alone produces.
\<close>

theorem Pop_empty_and_last:
  "Pop (h, []) = Inr (None, h, [])
   \<and> (UndoFunc m = Some u \<longrightarrow> Pop (h, q @ [m]) = Inr (Some m, run_undo u h, q))"
  by (simp add: Pop_def)

theorem Pop_empty_and_last_witness:
  "UndoFunc ((ex_move MoveTypeSwap 0)\<lparr>UndoFunc := Some (UndoSwap 0)\<rparr>) = Some (UndoSwap 0)
   \<and> Pop (ex_heap, [ex_move MoveTypeRotate 1, (ex_move MoveTypeSwap 0)\<lparr>UndoFunc := Some (UndoSwap 0)\<rparr>])
       = Inr (Some ((ex_move MoveTypeSwap 0)\<lparr>UndoFunc := Some (UndoSwap 0)\<rparr>),
              upd_domino 0 Swap ex_heap, [ex_move MoveTypeRotate 1])"
  using Pop_empty_and_last
    [of ex_heap "(ex_move MoveTypeSwap 0)\<lparr>UndoFunc := Some (UndoSwap 0)\<rparr>" "UndoSwap 0"
        "[ex_move MoveTypeRotate 1]"]
  by simp

lemma ex_TryAssign_fail: "TryAssign (Suc 0) 0 ex_heap = None"
  by (simp add: TryAssign_def neighborOf_def ex_heap_def ex_domino1_def ex_square0_def)

lemma ex_TryAssign_ok: "TryAssign 0 0 ex_heap = Some (Assign 0 0 (Suc 0) ex_heap)"
  by (simp add: TryAssign_def neighborOf_def ex_heap_def ex_domino0_def ex_square0_def
      ex_square1_def ex_restriction_def restr_def Check_def)

text \<open>
  C1. A move that \<open>TryPush\<close> accepted is undone by the \<open>Pop\<close> that follows: \<open>Pop\<close>
  returns the entry \<open>TryPush\<close> appended, and the store and the queue are exactly the
  ones before the push, so the domino's counter, side values and assigned flag, both
  squares' \<open>DominoAssigned\<close>, and the \<open>Arg\<close> and \<open>NumSquaresLeft\<close> of every restriction
  have their old values. For an assign move the square is open and the domino is not
  assigned before the push, as in the search, where the square comes from
  \<open>pickEmptySquare\<close> and the domino from \<open>FindAvailableCandidates\<close>.
\<close>

theorem TryPush_Pop_roundtrip:
  assumes "TryPush m (h, q) = (True, h', q')"
    and "MoveType m = MoveTypeAssign \<longrightarrow>
           DominoAssigned (squares h (GridSquare m)) = None
           \<and> \<not> IsAssigned (dominoes h (Move.Domino m))"
  shows "\<exists>u. q' = q @ [m\<lparr>UndoFunc := Some u\<rparr>]
           \<and> Pop (h', q') = Inr (Some (m\<lparr>UndoFunc := Some u\<rparr>), h, q)"
proof -
  consider (rot) "MoveType m = MoveTypeRotate" | (swap) "MoveType m = MoveTypeSwap"
    | (assign) "MoveType m = MoveTypeAssign"
    | (other) "MoveType m \<noteq> MoveTypeRotate" "MoveType m \<noteq> MoveTypeSwap"
        "MoveType m \<noteq> MoveTypeAssign"
    by blast
  then show ?thesis
  proof cases
    case rot
    with assms(1) show ?thesis
      by (auto simp add: TryPush_def Pop_def upd_domino_roundtrip rotate_inverse)
  next
    case swap
    with assms(1) show ?thesis
      by (auto simp add: TryPush_def Pop_def upd_domino_roundtrip Swap_Swap)
  next
    case assign
    with assms(1) obtain r where r: "TryAssign (Move.Domino m) (GridSquare m) h = Some r"
      and h': "h' = fst r" and q': "q' = q @ [m\<lparr>UndoFunc := Some (snd r)\<rparr>]"
      by (auto simp add: TryPush_def split: option.splits)
    from TryAssign_Some [OF r] obtain n where
      n: "DominoAssigned (squares h n) = None"
      and ra: "r = Assign (Move.Domino m) (GridSquare m) n h"
      by blast
    from assign assms(2) have
      "run_undo (snd (Assign (Move.Domino m) (GridSquare m) n h))
         (fst (Assign (Move.Domino m) (GridSquare m) n h)) = h"
      by (intro Assign_undo n) simp_all
    with h' q' ra show ?thesis
      by (intro exI [of _ "snd r"]) (simp add: Pop_def del: run_undo.simps)
  next
    case other
    with assms(1) show ?thesis by (simp add: TryPush_def)
  qed
qed

theorem TryPush_Pop_roundtrip_witness:
  "TryPush (ex_move MoveTypeAssign 0) (ex_heap, [])
     = (True, fst (Assign 0 0 1 ex_heap),
        [(ex_move MoveTypeAssign 0)\<lparr>UndoFunc := Some (snd (Assign 0 0 1 ex_heap))\<rparr>])
   \<and> DominoAssigned (squares ex_heap 0) = None
   \<and> \<not> IsAssigned (dominoes ex_heap 0)
   \<and> Pop (fst (Assign 0 0 1 ex_heap),
          [(ex_move MoveTypeAssign 0)\<lparr>UndoFunc := Some (snd (Assign 0 0 1 ex_heap))\<rparr>])
       = Inr (Some ((ex_move MoveTypeAssign 0)\<lparr>UndoFunc := Some (snd (Assign 0 0 1 ex_heap))\<rparr>),
              ex_heap, [])"
proof -
  have tp: "TryPush (ex_move MoveTypeAssign 0) (ex_heap, [])
     = (True, fst (Assign 0 0 1 ex_heap),
        [(ex_move MoveTypeAssign 0)\<lparr>UndoFunc := Some (snd (Assign 0 0 1 ex_heap))\<rparr>])"
    by (simp add: TryPush_def ex_move_def ex_TryAssign_ok split_beta)
  have sq: "DominoAssigned (squares ex_heap 0) = None"
    by (simp add: ex_heap_def ex_square0_def)
  have un: "\<not> IsAssigned (dominoes ex_heap 0)"
    by (simp add: ex_heap_def ex_domino0_def)
  have hyp: "MoveType (ex_move MoveTypeAssign 0) = MoveTypeAssign \<longrightarrow>
           DominoAssigned (squares ex_heap (GridSquare (ex_move MoveTypeAssign 0))) = None
           \<and> \<not> IsAssigned (dominoes ex_heap (Move.Domino (ex_move MoveTypeAssign 0)))"
    using sq un by (simp add: ex_move_def)
  from TryPush_Pop_roundtrip [OF tp hyp] have
    "Pop (fst (Assign 0 0 1 ex_heap),
          [(ex_move MoveTypeAssign 0)\<lparr>UndoFunc := Some (snd (Assign 0 0 1 ex_heap))\<rparr>])
       = Inr (Some ((ex_move MoveTypeAssign 0)\<lparr>UndoFunc := Some (snd (Assign 0 0 1 ex_heap))\<rparr>),
              ex_heap, [])"
    by (elim exE conjE) (simp del: run_undo.simps)
  with tp sq un show ?thesis by (simp del: run_undo.simps)
qed

text \<open>
  C5. For an assign move: when \<open>TryAssign\<close> fails, \<open>TryPush\<close> returns false and the
  store and the queue are the ones before the call; when \<open>TryAssign\<close> succeeds,
  \<open>TryPush\<close> returns true, the store is the one \<open>TryAssign\<close> left, and the queue has
  the move, with the undo function, appended; so \<open>TryPush\<close> returns true iff
  \<open>TryAssign\<close> succeeds. \<open>TryAssign\<close> fails exactly when there is no neighbor in the
  direction of the rotation, or the neighbor is occupied, or a check of the restrictions
  fails.
\<close>

theorem TryPush_assign_atomic:
  assumes "MoveType m = MoveTypeAssign"
  shows "(TryAssign (Move.Domino m) (GridSquare m) h = None
            \<longrightarrow> TryPush m (h, q) = (False, h, q))
       \<and> (\<forall>h' u. TryAssign (Move.Domino m) (GridSquare m) h = Some (h', u)
            \<longrightarrow> TryPush m (h, q) = (True, h', q @ [m\<lparr>UndoFunc := Some u\<rparr>]))
       \<and> (fst (TryPush m (h, q)) \<longleftrightarrow> TryAssign (Move.Domino m) (GridSquare m) h \<noteq> None)
       \<and> (TryAssign (Move.Domino m) (GridSquare m) h = None \<longleftrightarrow>
            (case neighborOf (dominoes h (Move.Domino m)) (squares h (GridSquare m)) of
               None \<Rightarrow> True
             | Some n \<Rightarrow>
                 DominoAssigned (squares h n) \<noteq> None
                 \<or> (if Restriction (squares h (GridSquare m)) = Restriction (squares h n)
                     then (Type (restr h (GridSquare m)) = RestrictionTypeEqual
                             \<and> \<not> Check (restr h (GridSquare m))
                                    (Square1Value (dominoes h (Move.Domino m))) 1)
                        \<or> (Type (restr h (GridSquare m)) = RestrictionTypeSumsTo
                             \<and> \<not> Check (restr h (GridSquare m))
                                    (Square1Value (dominoes h (Move.Domino m))
                                       + Square2Value (dominoes h (Move.Domino m))) 2)
                     else \<not> Check (restr h n) (Square2Value (dominoes h (Move.Domino m))) 1)))"
proof (intro conjI)
  show "TryAssign (Move.Domino m) (GridSquare m) h = None
          \<longrightarrow> TryPush m (h, q) = (False, h, q)"
    using assms by (simp add: TryPush_def)
  show "\<forall>h' u. TryAssign (Move.Domino m) (GridSquare m) h = Some (h', u)
          \<longrightarrow> TryPush m (h, q) = (True, h', q @ [m\<lparr>UndoFunc := Some u\<rparr>])"
    using assms by (simp add: TryPush_def)
  show "fst (TryPush m (h, q)) \<longleftrightarrow> TryAssign (Move.Domino m) (GridSquare m) h \<noteq> None"
    using assms by (auto simp add: TryPush_def split: option.splits)
  show "TryAssign (Move.Domino m) (GridSquare m) h = None \<longleftrightarrow>
            (case neighborOf (dominoes h (Move.Domino m)) (squares h (GridSquare m)) of
               None \<Rightarrow> True
             | Some n \<Rightarrow>
                 DominoAssigned (squares h n) \<noteq> None
                 \<or> (if Restriction (squares h (GridSquare m)) = Restriction (squares h n)
                     then (Type (restr h (GridSquare m)) = RestrictionTypeEqual
                             \<and> \<not> Check (restr h (GridSquare m))
                                    (Square1Value (dominoes h (Move.Domino m))) 1)
                        \<or> (Type (restr h (GridSquare m)) = RestrictionTypeSumsTo
                             \<and> \<not> Check (restr h (GridSquare m))
                                    (Square1Value (dominoes h (Move.Domino m))
                                       + Square2Value (dominoes h (Move.Domino m))) 2)
                     else \<not> Check (restr h n) (Square2Value (dominoes h (Move.Domino m))) 1))"
    by (rule TryAssign_None_iff)
qed

theorem TryPush_assign_atomic_witness:
  "MoveType (ex_move MoveTypeAssign 1) = MoveTypeAssign
   \<and> TryPush (ex_move MoveTypeAssign 1) (ex_heap, []) = (False, ex_heap, [])
   \<and> MoveType (ex_move MoveTypeAssign 0) = MoveTypeAssign
   \<and> fst (TryPush (ex_move MoveTypeAssign 0) (ex_heap, []))"
  using TryPush_assign_atomic [of "ex_move MoveTypeAssign 1" ex_heap "[]"]
    TryPush_assign_atomic [of "ex_move MoveTypeAssign 0" ex_heap "[]"]
  by (simp add: ex_move_def ex_TryAssign_fail ex_TryAssign_ok split_beta)

section \<open>Equal regions\<close>

lemma eq_TryAssign: "TryAssign 0 0 eq_heap = Some (Assign 0 0 (Suc 0) eq_heap)"
  by (simp add: TryAssign_def neighborOf_def eq_heap_def eq_domino_def ex_square0_def
      ex_square1_def eq_restriction_def restr_def Check_def)

lemma eq_pick0: "pickEmptySquare eq_heap strip_grid = Inr 0"
  by (simp add: pickEmptySquare_def blankSquares_def strip_grid_def eq_heap_def
      ex_square0_def ex_square1_def restr_def eq_restriction_def)

lemma eq_candidates:
  "FindAvailableCandidates eq_heap [0] 0
     = [\<lparr>Domino = 0, isLeftMatch = True, isRightMatch = False\<rparr>]"
  by (simp add: eq_heap_def restr_def eq_restriction_def Check_def ex_square0_def
      eq_domino_def)

text \<open>
  C4. On the strip whose two squares are one \<open>eq\<close> region with \<open>Arg = 0\<close>, the
  search picks square 0 and finds the domino 0-5 a candidate by its first half, and
  \<open>TryAssign\<close> accepts it on square 0 facing right: the region keeps \<open>Arg = 0\<close>, and
  both squares are covered by the domino, the second one by its half of value 5.
  Likewise on the strip \<open>ex_heap\<close>, whose region is unbound (\<open>Arg = -1\<close>), \<open>TryAssign\<close>
  accepts the domino 3-5: the region is bound to 3, and the second square is covered by
  the half of value 5.
\<close>

theorem TryAssign_accepts_unequal_halves:
  "pickEmptySquare eq_heap strip_grid = Inr 0
   \<and> FindAvailableCandidates eq_heap [0] 0
       = [\<lparr>Domino = 0, isLeftMatch = True, isRightMatch = False\<rparr>]
   \<and> TryAssign 0 0 eq_heap = Some (Assign 0 0 1 eq_heap)
   \<and> Restriction (squares eq_heap 0) = Restriction (squares eq_heap 1)
   \<and> restr (fst (Assign 0 0 1 eq_heap)) 1
       = \<lparr>Type = RestrictionTypeEqual, Arg = 0, NumSquaresLeft = 2\<rparr>
   \<and> DominoAssigned (squares (fst (Assign 0 0 1 eq_heap)) 0) = Some 0
   \<and> DominoAssigned (squares (fst (Assign 0 0 1 eq_heap)) 1) = Some 0
   \<and> Square1Value (dominoes (fst (Assign 0 0 1 eq_heap)) 0) = 0
   \<and> Square2Value (dominoes (fst (Assign 0 0 1 eq_heap)) 0) = 5
   \<and> TryAssign 0 0 ex_heap = Some (Assign 0 0 1 ex_heap)
   \<and> restr (fst (Assign 0 0 1 ex_heap)) 1
       = \<lparr>Type = RestrictionTypeEqual, Arg = 3, NumSquaresLeft = 2\<rparr>
   \<and> DominoAssigned (squares (fst (Assign 0 0 1 ex_heap)) 1) = Some 0
   \<and> Square2Value (dominoes (fst (Assign 0 0 1 ex_heap)) 0) = 5"
proof (intro conjI)
  show "pickEmptySquare eq_heap strip_grid = Inr 0"
    by (rule eq_pick0)
  show "FindAvailableCandidates eq_heap [0] 0
       = [\<lparr>Domino = 0, isLeftMatch = True, isRightMatch = False\<rparr>]"
    by (rule eq_candidates)
  show "TryAssign 0 0 eq_heap = Some (Assign 0 0 1 eq_heap)"
    using eq_TryAssign by simp
  show "Restriction (squares eq_heap 0) = Restriction (squares eq_heap 1)"
    by (simp add: eq_heap_def ex_square0_def ex_square1_def)
  show "restr (fst (Assign 0 0 1 eq_heap)) 1
       = \<lparr>Type = RestrictionTypeEqual, Arg = 0, NumSquaresLeft = 2\<rparr>"
    by (simp add: restr_def Assign_restrictions subSum_def bindEq_def isBlank_def
        eq_heap_def eq_restriction_def)
  show "DominoAssigned (squares (fst (Assign 0 0 1 eq_heap)) 0) = Some 0"
    by (simp add: Assign_squares)
  show "DominoAssigned (squares (fst (Assign 0 0 1 eq_heap)) 1) = Some 0"
    by (simp add: Assign_squares)
  show "Square1Value (dominoes (fst (Assign 0 0 1 eq_heap)) 0) = 0"
    by (simp add: Assign_dominoes eq_heap_def eq_domino_def)
  show "Square2Value (dominoes (fst (Assign 0 0 1 eq_heap)) 0) = 5"
    by (simp add: Assign_dominoes eq_heap_def eq_domino_def)
  show "TryAssign 0 0 ex_heap = Some (Assign 0 0 1 ex_heap)"
    using ex_TryAssign_ok by simp
  show "restr (fst (Assign 0 0 1 ex_heap)) 1
       = \<lparr>Type = RestrictionTypeEqual, Arg = 3, NumSquaresLeft = 2\<rparr>"
    by (simp add: restr_def Assign_restrictions Assign_squares subSum_def bindEq_def
        isBlank_def ex_heap_def ex_restriction_def ex_domino0_def ex_square0_def
        ex_square1_def)
  show "DominoAssigned (squares (fst (Assign 0 0 1 ex_heap)) 1) = Some 0"
    by (simp add: Assign_squares)
  show "Square2Value (dominoes (fst (Assign 0 0 1 ex_heap)) 0) = 5"
    by (simp add: Assign_dominoes ex_heap_def ex_domino0_def)
qed

theorem TryAssign_accepts_unequal_halves_witness:
  "TryAssign 0 0 eq_heap \<noteq> None
   \<and> Square2Value (dominoes (fst (the (TryAssign 0 0 eq_heap))) 0)
       \<noteq> Arg (restr (fst (the (TryAssign 0 0 eq_heap))) 1)"
  using TryAssign_accepts_unequal_halves by simp

section \<open>MoveQueue.PruneUselessMoves\<close>

text \<open>
  C8. On the log \<open>prune_log\<close> (a swap of domino 0, four rotates of domino 0, an assign
  of domino 1) \<open>PruneUselessMoves\<close> sets \<open>Pruned\<close> on the entries 0 to 3: the swap and
  the first three rotates. The fourth rotate is left unmarked.
\<close>

theorem Prune_after_swap:
  "PruneUselessMoves prune_log = Inr (markPruned 0 3 prune_log)
   \<and> map Pruned (markPruned 0 3 prune_log) = [True, True, True, True, False, False]
   \<and> map MoveType prune_log
       = [MoveTypeSwap, MoveTypeRotate, MoveTypeRotate, MoveTypeRotate, MoveTypeRotate,
          MoveTypeAssign]"
  by (simp add: PruneUselessMoves_def prune_log_def logged_def markPruned_def)

section \<open>pickEmptySquare\<close>




section \<open>The search\<close>

lemma strip_pick0: "pickEmptySquare strip_heap strip_grid = Inr 0"
  by (simp add: pickEmptySquare_def blankSquares_def strip_grid_def strip_heap_def
      ex_square0_def ex_square1_def restr_def none_restriction_def)

lemma strip_candidates:
  "FindAvailableCandidates strip_heap [0] 0
     = [\<lparr>Domino = 0, isLeftMatch = True, isRightMatch = True\<rparr>]"
  by (simp add: strip_heap_def restr_def none_restriction_def Check_def strip_domino_def)

lemma strip_TryAssign: "TryAssign 0 0 strip_heap = Some (Assign 0 0 (Suc 0) strip_heap)"
  by (simp add: TryAssign_def neighborOf_def strip_heap_def strip_domino_def ex_square0_def
      ex_square1_def none_restriction_def restr_def Check_def)

lemma strip_covered: "blankSquares (fst (Assign 0 0 (Suc 0) strip_heap)) strip_grid = []"
  by (simp add: blankSquares_def strip_grid_def Assign_squares)

lemma strip_pick1:
  "pickEmptySquare (fst (Assign 0 0 (Suc 0) strip_heap)) strip_grid = Inl IndexOutOfRange"
  by (simp add: pickEmptySquare_def strip_covered)

lemma strip_assigned: "\<not> HasUnassigned (fst (Assign 0 0 (Suc 0) strip_heap)) [0]"
  by (simp add: Assign_dominoes)

lemma orientationLoop_abort:
  assumes "TryPush \<lparr>Label = assignLabel (dominoes h d) (squares h sq), Domino = d,
                    GridSquare = sq, MoveType = MoveTypeAssign, UndoFunc = None,
                    Pruned = False\<rparr> (h, q) = (True, st1)"
    and "nxt st1 = Some (Inl e)"
  shows "orientationLoop nxt d sq (Suc k) deferred (h, q) = Some (Inl e)"
  using assms by (simp add: Let_def)

lemma strip_push:
  "TryPush \<lparr>Label = assignLabel (dominoes strip_heap 0) (squares strip_heap 0), Domino = 0,
            GridSquare = 0, MoveType = MoveTypeAssign, UndoFunc = None,
            Pruned = False\<rparr> (strip_heap, [])
   = (True, fst (Assign 0 0 (Suc 0) strip_heap),
      [\<lparr>Label = assignLabel (dominoes strip_heap 0) (squares strip_heap 0), Domino = 0,
            GridSquare = 0, MoveType = MoveTypeAssign,
            UndoFunc = Some (snd (Assign 0 0 (Suc 0) strip_heap)), Pruned = False\<rparr>])"
  by (simp add: TryPush_def strip_TryAssign split_beta)

lemma strip_orientationLoop:
  assumes "nxt (fst (Assign 0 0 (Suc 0) strip_heap),
      [\<lparr>Label = assignLabel (dominoes strip_heap 0) (squares strip_heap 0), Domino = 0,
            GridSquare = 0, MoveType = MoveTypeAssign,
            UndoFunc = Some (snd (Assign 0 0 (Suc 0) strip_heap)), Pruned = False\<rparr>])
      = Some (Inl e)"
  shows "orientationLoop nxt 0 0 8 0 (strip_heap, []) = Some (Inl e)"
proof -
  have "orientationLoop nxt 0 0 (Suc 7) 0 (strip_heap, []) = Some (Inl e)"
    by (rule orientationLoop_abort [where nxt = nxt, OF strip_push assms])
  then show ?thesis by simp
qed

lemma strip_candidateLoop:
  assumes "nxt (fst (Assign 0 0 (Suc 0) strip_heap),
      [\<lparr>Label = assignLabel (dominoes strip_heap 0) (squares strip_heap 0), Domino = 0,
            GridSquare = 0, MoveType = MoveTypeAssign,
            UndoFunc = Some (snd (Assign 0 0 (Suc 0) strip_heap)), Pruned = False\<rparr>])
      = Some (Inl e)"
  shows "candidateLoop nxt 0 [\<lparr>Domino = 0, isLeftMatch = True, isRightMatch = True\<rparr>] 0
           (strip_heap, []) = Some (Inl e)"
  using strip_orientationLoop [where nxt = nxt, OF assms] by (simp add: Let_def del: orientationLoop.simps)

text \<open>
  C2. On the strip of two unrestricted squares with the one domino 1-2, the first assign
  covers both squares: no open square is left and no domino is unassigned. The next
  statement of the search is \<open>makeNextMove(..., pickEmptySquare(grid))\<close>, and
  \<open>pickEmptySquare\<close> evaluates \<open>blankSquares[0]\<close> on the empty slice: the run ends
  in the index-out-of-range panic, whatever the bound on the depth of the recursion.
\<close>

theorem search_aborts_on_covered_grid:
  "blankSquares (fst (Assign 0 0 1 strip_heap)) strip_grid = []
   \<and> \<not> HasUnassigned (fst (Assign 0 0 1 strip_heap)) [0]
   \<and> TryAssign 0 0 strip_heap = Some (Assign 0 0 1 strip_heap)
   \<and> pickEmptySquare (fst (Assign 0 0 1 strip_heap)) strip_grid = Inl IndexOutOfRange
   \<and> solve (Suc n) strip_heap strip_grid [0] = Some (Inl IndexOutOfRange)"
proof (intro conjI)
  show "blankSquares (fst (Assign 0 0 1 strip_heap)) strip_grid = []"
    using strip_covered by simp
  show "\<not> HasUnassigned (fst (Assign 0 0 1 strip_heap)) [0]"
    using strip_assigned by simp
  show "TryAssign 0 0 strip_heap = Some (Assign 0 0 1 strip_heap)"
    using strip_TryAssign by simp
  show "pickEmptySquare (fst (Assign 0 0 1 strip_heap)) strip_grid = Inl IndexOutOfRange"
    using strip_pick1 by simp
  have "makeNextMove (Suc n) strip_grid [0] 0 (strip_heap, []) = Some (Inl IndexOutOfRange)"
    by (simp add: strip_candidates strip_candidateLoop strip_pick1
        del: candidateLoop.simps orientationLoop.simps FindAvailableCandidates.simps)
  then show "solve (Suc n) strip_heap strip_grid [0] = Some (Inl IndexOutOfRange)"
    by (simp add: solve_def strip_pick0)
qed

theorem search_aborts_on_covered_grid_witness:
  "solve 1 strip_heap strip_grid [0] = Some (Inl IndexOutOfRange)
   \<and> solve 2 strip_heap strip_grid [0] = Some (Inl IndexOutOfRange)"
  using search_aborts_on_covered_grid [of 0] search_aborts_on_covered_grid [of 1]
  by (simp add: numeral_2_eq_2)

section \<open>Determinism of the search\<close>











end
